theory Spec2Isabelle
  imports Main
begin

section \<open>The RTM client shim: data model\<close>

text \<open>
  The shim exposes a C API over an opaque client handle. Two translation units implement
  it: \<^verbatim>\<open>native/src/atem_rtm.cpp\<close>, an in-process simulator that echoes every
  send to the registered callback, and \<^verbatim>\<open>native/src/atem_rtm_real.cpp\<close>, an
  adapter over the vendor SDK.

  A \<^verbatim>\<open>const char*\<close> argument is a \<open>string option\<close>: \<open>None\<close> is the null pointer
  and \<open>Some []\<close> the empty string, which the C code tells apart. A client pointer is an
  option of the client record. The callback is a nullable function pointer; a call through
  it is recorded as an \<open>invocation\<close> carrying the function called and the three arguments
  it received. The callback is taken to be an observer: it does not call back into the
  client and does not change the strings the configuration points to.
\<close>

type_synonym c_str = "string option"
type_synonym void_ptr = nat
type_synonym fn_ptr = nat

text \<open>
  \<^verbatim>\<open>AtemRtmConfig\<close> (include/atem_rtm.h). The fields carry the prefix \<open>cfg_\<close> because
  the client structs have members of the same names.
\<close>

record AtemRtmConfig =
  cfg_app_id :: c_str
  cfg_token :: c_str
  cfg_channel :: c_str
  cfg_client_id :: c_str

text \<open>\<^verbatim>\<open>struct AtemRtmClient\<close> of the simulator (atem\_rtm.cpp, lines 9 to 19).\<close>

record AtemRtmClient =
  config :: AtemRtmConfig
  callback :: "fn_ptr option"
  user_data :: void_ptr
  connected :: bool
  logged_in :: bool
  channel_joined :: bool
  user_id :: string
  channel_id :: string
  token :: string

text \<open>
  One call \<^verbatim>\<open>callback(from_client_id, payload, user_data)\<close>: the function called,
  then its arguments in the order of \<^verbatim>\<open>AtemRtmMessageCallback\<close>.
\<close>

datatype invocation = Invoke fn_ptr string string void_ptr

text \<open>
  What one API call does: the \<^verbatim>\<open>int\<close> it returns, the client object behind the
  handle afterwards, and the callback invocations it made, in order.
\<close>

record outcome =
  ret :: int
  client_after :: "AtemRtmClient option"
  invoked :: "invocation list"

text \<open>\<^verbatim>\<open>return -1;\<close> before anything was written or called.\<close>

definition rejected :: "AtemRtmClient option \<Rightarrow> outcome" where
  "rejected client = \<lparr>ret = - 1, client_after = client, invoked = []\<rparr>"

section \<open>The simulator's operations (atem\_rtm.cpp)\<close>

text \<open>
  \<^verbatim>\<open>atem_rtm_create\<close>: null configuration gives a null handle; otherwise a new client
  with the configuration copied, the callback and context stored, and every other member
  at its default initialiser.
\<close>

definition atem_rtm_create ::
  "AtemRtmConfig option \<Rightarrow> fn_ptr option \<Rightarrow> void_ptr \<Rightarrow> AtemRtmClient option" where
  "atem_rtm_create cfg cb ud =
     (case cfg of
        None \<Rightarrow> None
      | Some k \<Rightarrow>
          Some \<lparr>config = k, callback = cb, user_data = ud,
                connected = False, logged_in = False, channel_joined = False,
                user_id = [], channel_id = [], token = []\<rparr>)"

definition atem_rtm_connect :: "AtemRtmClient option \<Rightarrow> outcome" where
  "atem_rtm_connect client =
     (case client of
        None \<Rightarrow> rejected client
      | Some c \<Rightarrow>
          \<lparr>ret = 0,
           client_after = Some (c\<lparr>connected := True, logged_in := False, channel_joined := False\<rparr>),
           invoked = []\<rparr>)"

definition atem_rtm_disconnect :: "AtemRtmClient option \<Rightarrow> outcome" where
  "atem_rtm_disconnect client =
     (case client of
        None \<Rightarrow> rejected client
      | Some c \<Rightarrow>
          \<lparr>ret = 0,
           client_after = Some (c\<lparr>connected := False, logged_in := False, channel_joined := False\<rparr>),
           invoked = []\<rparr>)"

text \<open>
  \<^verbatim>\<open>atem_rtm_login\<close>: the guard is
  \<^verbatim>\<open>!client || !client->connected || !user_id\<close>, tested left to right; then
  \<^verbatim>\<open>client->token = token ? token : ""\<close>.
\<close>

definition atem_rtm_login :: "AtemRtmClient option \<Rightarrow> c_str \<Rightarrow> c_str \<Rightarrow> outcome" where
  "atem_rtm_login client tok uid =
     (case client of
        None \<Rightarrow> rejected client
      | Some c \<Rightarrow>
          if \<not> connected c then rejected client
          else (case uid of
                  None \<Rightarrow> rejected client
                | Some u \<Rightarrow>
                    \<lparr>ret = 0,
                     client_after =
                       Some (c\<lparr>token := (case tok of None \<Rightarrow> [] | Some t \<Rightarrow> t),
                               user_id := u,
                               logged_in := True\<rparr>),
                     invoked = []\<rparr>))"

text \<open>\<^verbatim>\<open>atem_rtm_join_channel\<close>: guard \<^verbatim>\<open>!client || !client->logged_in || !channel_id\<close>.\<close>

definition atem_rtm_join_channel :: "AtemRtmClient option \<Rightarrow> c_str \<Rightarrow> outcome" where
  "atem_rtm_join_channel client chan =
     (case client of
        None \<Rightarrow> rejected client
      | Some c \<Rightarrow>
          if \<not> logged_in c then rejected client
          else (case chan of
                  None \<Rightarrow> rejected client
                | Some ch \<Rightarrow>
                    \<lparr>ret = 0,
                     client_after = Some (c\<lparr>channel_id := ch, channel_joined := True\<rparr>),
                     invoked = []\<rparr>))"

text \<open>
  \<^verbatim>\<open>atem_rtm_publish_channel\<close>: guard
  \<^verbatim>\<open>!client || !client->connected || !client->channel_joined || !payload\<close>; then,
  if the callback is not null, one call with sender
  \<^verbatim>\<open>config.client_id ? config.client_id : "self"\<close>.
\<close>

definition atem_rtm_publish_channel :: "AtemRtmClient option \<Rightarrow> c_str \<Rightarrow> outcome" where
  "atem_rtm_publish_channel client payload =
     (case client of
        None \<Rightarrow> rejected client
      | Some c \<Rightarrow>
          if \<not> connected c then rejected client
          else if \<not> channel_joined c then rejected client
          else (case payload of
                  None \<Rightarrow> rejected client
                | Some p \<Rightarrow>
                    \<lparr>ret = 0,
                     client_after = client,
                     invoked =
                       (case callback c of
                          None \<Rightarrow> []
                        | Some f \<Rightarrow>
                            [Invoke f
                               (case cfg_client_id (config c) of None \<Rightarrow> ''self'' | Some s \<Rightarrow> s)
                               p (user_data c)])\<rparr>))"

text \<open>
  \<^verbatim>\<open>atem_rtm_send_peer\<close>: guard
  \<^verbatim>\<open>!client || !client->connected || !target_client_id || !payload\<close>; then, if the
  callback is not null, the message is echoed with the target as sender.
\<close>

definition atem_rtm_send_peer :: "AtemRtmClient option \<Rightarrow> c_str \<Rightarrow> c_str \<Rightarrow> outcome" where
  "atem_rtm_send_peer client target_client_id payload =
     (case client of
        None \<Rightarrow> rejected client
      | Some c \<Rightarrow>
          if \<not> connected c then rejected client
          else (case target_client_id of
                  None \<Rightarrow> rejected client
                | Some t \<Rightarrow>
                    (case payload of
                       None \<Rightarrow> rejected client
                     | Some p \<Rightarrow>
                         \<lparr>ret = 0,
                          client_after = client,
                          invoked =
                            (case callback c of
                               None \<Rightarrow> []
                             | Some f \<Rightarrow> [Invoke f t p (user_data c)])\<rparr>)))"

section \<open>Sequences of calls on one handle\<close>

text \<open>
  The operations a caller can apply to a live handle. \<^verbatim>\<open>atem_rtm_destroy\<close> is not
  among them: it ends the handle's life, and no call on the freed handle is defined.
\<close>

datatype api_call =
    Connect
  | Disconnect
  | Login c_str c_str
  | JoinChannel c_str
  | PublishChannel c_str
  | SendPeer c_str c_str

fun dispatch :: "AtemRtmClient option \<Rightarrow> api_call \<Rightarrow> outcome" where
  "dispatch h Connect = atem_rtm_connect h"
| "dispatch h Disconnect = atem_rtm_disconnect h"
| "dispatch h (Login tok uid) = atem_rtm_login h tok uid"
| "dispatch h (JoinChannel chan) = atem_rtm_join_channel h chan"
| "dispatch h (PublishChannel payload) = atem_rtm_publish_channel h payload"
| "dispatch h (SendPeer target payload) = atem_rtm_send_peer h target payload"

text \<open>The outcomes of a sequence of calls, each applied to the client the previous one left.\<close>

fun run_calls :: "AtemRtmClient option \<Rightarrow> api_call list \<Rightarrow> outcome list" where
  "run_calls h [] = []"
| "run_calls h (a # as) = dispatch h a # run_calls (client_after (dispatch h a)) as"

text \<open>The three flags of the client behind a handle.\<close>

definition flags :: "AtemRtmClient \<Rightarrow> bool \<times> bool \<times> bool" where
  "flags c = (connected c, logged_in c, channel_joined c)"

text \<open>The configuration of the scenario of the specification; the token is left open.\<close>

definition scenario_config :: "c_str \<Rightarrow> AtemRtmConfig" where
  "scenario_config tk =
     \<lparr>cfg_app_id = Some ''A'', cfg_token = tk, cfg_channel = Some ''c1'',
      cfg_client_id = Some ''u1''\<rparr>"

text \<open>
  The ordering of the three flags that the specification asks of every reachable state:
  joined only if logged in, logged in only if connected.
\<close>

definition state_ordered :: "AtemRtmClient \<Rightarrow> bool" where
  "state_ordered c \<longleftrightarrow>
     (channel_joined c \<longrightarrow> logged_in c) \<and> (logged_in c \<longrightarrow> connected c)"

text \<open>
  Two example clients: the one \<^verbatim>\<open>atem_rtm_create\<close> returns for the scenario
  configuration, and the one reached from it by connect, login("tok", "u1") and
  join("room1").
\<close>

definition fresh_example :: "fn_ptr option \<Rightarrow> AtemRtmClient" where
  "fresh_example cb =
     \<lparr>config = scenario_config None, callback = cb, user_data = 9,
      connected = False, logged_in = False, channel_joined = False,
      user_id = [], channel_id = [], token = []\<rparr>"

definition joined_example :: "fn_ptr option \<Rightarrow> AtemRtmClient" where
  "joined_example cb =
     \<lparr>config = scenario_config None, callback = cb, user_data = 9,
      connected = True, logged_in = True, channel_joined = True,
      user_id = ''u1'', channel_id = ''room1'', token = ''tok''\<rparr>"

section \<open>The vendor-backed login (atem\_rtm\_real.cpp)\<close>

text \<open>
  Of the vendor-backed translation unit only creation and login are modelled, as far as
  they decide which token a login uses. The members of its \<^verbatim>\<open>struct AtemRtmClient\<close>
  that share a name with the simulator's carry the suffix \<open>_real\<close>; the mutex is left out.
  The vendor SDK is not part of the repository: what \<^verbatim>\<open>createAgoraRtmClient\<close>
  returns (the client pointer and the error code) is a parameter of creation, and a call
  \<^verbatim>\<open>rtm_client->login(tok, request_id)\<close> is recorded as \<open>SdkLogin\<close> with the SDK
  client and the token passed. The value the SDK's login returns is ignored by the source.
\<close>

type_synonym sdk_ptr = nat

record AtemRtmClient_real =
  rtm_client :: "sdk_ptr option"
  callback_real :: "fn_ptr option"
  user_data_real :: void_ptr
  app_id :: string
  token_real :: string
  channel :: string
  client_id :: string

datatype sdk_call = SdkLogin sdk_ptr string

definition atem_rtm_create_real ::
  "sdk_ptr option \<times> int \<Rightarrow> AtemRtmConfig option \<Rightarrow> fn_ptr option \<Rightarrow> void_ptr
     \<Rightarrow> AtemRtmClient_real option" where
  "atem_rtm_create_real sdk cfg cb ud =
     (case cfg of
        None \<Rightarrow> None
      | Some k \<Rightarrow>
          (case cfg_app_id k of
             None \<Rightarrow> None
           | Some a \<Rightarrow>
               (case cfg_client_id k of
                  None \<Rightarrow> None
                | Some i \<Rightarrow>
                    (case fst sdk of
                       None \<Rightarrow> None
                     | Some p \<Rightarrow>
                         if snd sdk \<noteq> 0 then None
                         else Some \<lparr>rtm_client = Some p, callback_real = cb,
                                    user_data_real = ud, app_id = a,
                                    token_real = (case cfg_token k of None \<Rightarrow> [] | Some t \<Rightarrow> t),
                                    channel = (case cfg_channel k of None \<Rightarrow> [] | Some ch \<Rightarrow> ch),
                                    client_id = i\<rparr>))))"

text \<open>
  \<^verbatim>\<open>atem_rtm_login\<close> of the vendor-backed unit:
  \<^verbatim>\<open>tok = (token && token[0] != '\0') ? token : client->token.c_str()\<close>.
\<close>

definition atem_rtm_login_real ::
  "AtemRtmClient_real option \<Rightarrow> c_str \<Rightarrow> c_str \<Rightarrow> int \<times> sdk_call list" where
  "atem_rtm_login_real client tok uid =
     (case client of
        None \<Rightarrow> (- 1, [])
      | Some c \<Rightarrow>
          (case rtm_client c of
             None \<Rightarrow> (- 1, [])
           | Some sdk \<Rightarrow>
               (0, [SdkLogin sdk
                      (case tok of
                         None \<Rightarrow> token_real c
                       | Some t \<Rightarrow> if t \<noteq> [] then t else token_real c)])))"

section \<open>Basic facts\<close>

lemmas api_defs =
  rejected_def atem_rtm_create_def atem_rtm_connect_def atem_rtm_disconnect_def
  atem_rtm_login_def atem_rtm_join_channel_def atem_rtm_publish_channel_def
  atem_rtm_send_peer_def

lemma create_fresh_example:
  "atem_rtm_create (Some (scenario_config None)) cb 9 = Some (fresh_example cb)"
  by (simp add: atem_rtm_create_def fresh_example_def)

lemma joined_example_reached:
  "map client_after
     (run_calls (Some (fresh_example cb))
        [Connect, Login (Some ''tok'') (Some ''u1''), JoinChannel (Some ''room1'')]) ! 2
     = Some (joined_example cb)"
  by (simp add: api_defs fresh_example_def joined_example_def)

lemma create_state_ordered:
  "\<exists>c. atem_rtm_create (Some cfg) cb ud = Some c \<and> state_ordered c"
  by (simp add: atem_rtm_create_def state_ordered_def)

lemma dispatch_keeps_handle:
  "\<exists>c'. client_after (dispatch (Some c) a) = Some c'"
  by (cases a) (simp_all add: api_defs split: option.splits)

lemma dispatch_state_ordered:
  assumes "state_ordered c" and "client_after (dispatch (Some c) a) = Some c'"
  shows "state_ordered c'"
  using assms
  by (cases a) (auto simp: api_defs state_ordered_def split: option.splits if_splits)

lemma run_calls_state_ordered:
  "state_ordered c \<Longrightarrow>
   \<forall>out \<in> set (run_calls (Some c) calls). \<exists>c'. client_after out = Some c' \<and> state_ordered c'"
proof (induction calls arbitrary: c)
  case Nil
  show ?case by simp
next
  case (Cons a calls)
  obtain c1 where c1: "client_after (dispatch (Some c) a) = Some c1"
    using dispatch_keeps_handle by blast
  have ord1: "state_ordered c1"
    using Cons.prems c1 by (rule dispatch_state_ordered)
  from Cons.IH [OF ord1] c1 ord1 show ?case by simp
qed

lemma dispatch_callback_unchanged:
  "map_option callback (client_after (dispatch (Some c) a)) = Some (callback c)"
  by (cases a) (simp_all add: api_defs split: option.splits)

lemma dispatch_null_callback_silent:
  "callback c = None \<Longrightarrow> invoked (dispatch (Some c) a) = []"
  by (cases a) (simp_all add: api_defs split: option.splits)

lemma run_calls_null_callback_silent:
  "callback c = None \<Longrightarrow> \<forall>out \<in> set (run_calls (Some c) calls). invoked out = []"
proof (induction calls arbitrary: c)
  case Nil
  show ?case by simp
next
  case (Cons a calls)
  from dispatch_callback_unchanged [of c a] Cons.prems
  obtain c1 where c1: "client_after (dispatch (Some c) a) = Some c1" and cb1: "callback c1 = None"
    by auto
  from Cons.IH [OF cb1] c1 dispatch_null_callback_silent [OF Cons.prems, of a]
  show ?case by simp
qed

lemma login_records_supplied_token:
  "connected c \<Longrightarrow>
   map_option token (client_after (atem_rtm_login (Some c) tok (Some u)))
     = Some (case tok of None \<Rightarrow> [] | Some t \<Rightarrow> t)"
  by (simp add: atem_rtm_login_def)

lemma login_real_resolves_token:
  "rtm_client c = Some sdk \<Longrightarrow>
   atem_rtm_login_real (Some c) tok uid
     = (0, [SdkLogin sdk (case tok of
                            None \<Rightarrow> token_real c
                          | Some t \<Rightarrow> if t = [] then token_real c else t)])"
  by (simp add: atem_rtm_login_real_def split: option.splits)

section \<open>The state-ordering invariant\<close>

text \<open>
  Claim C1. Starting from the client that \<^verbatim>\<open>atem_rtm_create\<close> returns, after every
  call of every sequence of connect, disconnect, login, join, publish and send-to-peer
  calls (with any arguments, null pointers included) the handle still holds a client, and
  in it \<open>channel_joined\<close> implies \<open>logged_in\<close> and \<open>logged_in\<close> implies \<open>connected\<close>:
  the client is never joined without being authenticated, and never authenticated without
  being connected.
\<close>

theorem state_ordering_invariant:
  "\<forall>out \<in> set (run_calls (atem_rtm_create (Some cfg) cb ud) calls).
     \<exists>c. client_after out = Some c \<and> state_ordered c"
proof -
  obtain c0 where "atem_rtm_create (Some cfg) cb ud = Some c0" and "state_ordered c0"
    using create_state_ordered by blast
  then show ?thesis
    using run_calls_state_ordered by simp
qed

theorem state_ordering_invariant_witness:
  "map (map_option flags \<circ> client_after)
     (run_calls (atem_rtm_create (Some (scenario_config None)) None 0)
        [Connect, Login (Some ''tok'') (Some ''u1''), JoinChannel (Some ''c1'')])
     = [Some (True, False, False), Some (True, True, False), Some (True, True, True)]
   \<and> map (map_option state_ordered \<circ> client_after)
     (run_calls (atem_rtm_create (Some (scenario_config None)) None 0)
        [Connect, Login (Some ''tok'') (Some ''u1''), JoinChannel (Some ''c1'')])
     = [Some True, Some True, Some True]"
  using state_ordering_invariant
    [of "scenario_config None" None 0
        "[Connect, Login (Some ''tok'') (Some ''u1''), JoinChannel (Some ''c1'')]"]
  by (simp add: api_defs flags_def state_ordered_def)

section \<open>The scenario of the specification\<close>

text \<open>
  Claim C2. A client created with configuration \<open>{app_id: "A", client_id: "u1",
  channel: "c1"}\<close> (any token, null included) and a registered callback \<open>cb\<close> with
  context \<open>ud\<close> is driven through connect, authenticate("tok", "u1"), publish("x"),
  join("c1"), publish("x"). The calls return 0, 0, -1, 0, 0, and the only callback
  invocation of the whole run is made by the last publish: one call of \<open>cb\<close> with sender
  \<open>"u1"\<close>, payload \<open>"x"\<close> and the context.
\<close>

theorem scenario_connect_login_publish_join_publish:
  "map ret
     (run_calls (atem_rtm_create (Some (scenario_config tk)) (Some cb) ud)
        [Connect, Login (Some ''tok'') (Some ''u1''), PublishChannel (Some ''x''),
         JoinChannel (Some ''c1''), PublishChannel (Some ''x'')])
     = [0, 0, - 1, 0, 0]
   \<and> map invoked
     (run_calls (atem_rtm_create (Some (scenario_config tk)) (Some cb) ud)
        [Connect, Login (Some ''tok'') (Some ''u1''), PublishChannel (Some ''x''),
         JoinChannel (Some ''c1''), PublishChannel (Some ''x'')])
     = [[], [], [], [], [Invoke cb ''u1'' ''x'' ud]]"
  by (simp add: api_defs scenario_config_def)

section \<open>Disconnect\<close>

text \<open>
  Claim C3. On a valid handle, whatever the client's state, disconnect returns 0, calls
  nothing, and leaves the client with \<open>connected\<close>, \<open>logged_in\<close> and \<open>channel_joined\<close>
  all false (state Disconnected, authentication and channel membership cleared). A second
  disconnect right after returns 0 again and leaves the client exactly as the first one
  left it. The stored strings \<open>user_id\<close>, \<open>channel_id\<close> and \<open>token\<close> are not touched;
  no operation reads \<open>channel_id\<close>, so membership is the \<open>channel_joined\<close> flag.
\<close>

theorem disconnect_resets_and_is_idempotent:
  "ret (atem_rtm_disconnect (Some c)) = 0
   \<and> invoked (atem_rtm_disconnect (Some c)) = []
   \<and> client_after (atem_rtm_disconnect (Some c))
       = Some (c\<lparr>connected := False, logged_in := False, channel_joined := False\<rparr>)
   \<and> map_option flags (client_after (atem_rtm_disconnect (Some c)))
       = Some (False, False, False)
   \<and> ret (atem_rtm_disconnect (client_after (atem_rtm_disconnect (Some c)))) = 0
   \<and> client_after (atem_rtm_disconnect (client_after (atem_rtm_disconnect (Some c))))
       = client_after (atem_rtm_disconnect (Some c))"
  by (simp add: atem_rtm_disconnect_def flags_def)

section \<open>Connect\<close>

text \<open>
  Claim C4, as stated, fails: connect has no state check. On the scenario client a second
  connect, issued while \<open>connected\<close> is already true, returns 0 and not -1.
\<close>

theorem connect_when_connected_counterexample:
  "map ret
     (run_calls (atem_rtm_create (Some (scenario_config None)) None 0) [Connect, Connect])
     = [0, 0]
   \<and> map (map_option connected \<circ> client_after)
     (run_calls (atem_rtm_create (Some (scenario_config None)) None 0) [Connect, Connect])
     = [Some True, Some True]"
  by (simp add: api_defs)

text \<open>
  Claim C4, amended. On a valid handle connect returns 0 from every state, calls nothing,
  and leaves the client in state Connected: \<open>connected\<close> true, \<open>logged_in\<close> and
  \<open>channel_joined\<close> false. A client that was already connected, authenticated or joined
  is not rejected but reset to Connected. The only rejection is the null handle.
\<close>

theorem connect_always_accepted:
  "atem_rtm_connect (Some c)
     = \<lparr>ret = 0,
        client_after = Some (c\<lparr>connected := True, logged_in := False, channel_joined := False\<rparr>),
        invoked = []\<rparr>
   \<and> map_option flags (client_after (atem_rtm_connect (Some c))) = Some (True, False, False)
   \<and> atem_rtm_connect None = \<lparr>ret = - 1, client_after = None, invoked = []\<rparr>"
  by (simp add: atem_rtm_connect_def rejected_def flags_def)

section \<open>Login\<close>

text \<open>
  Claim C5, as stated, fails twice. A login repeated on a client that is already
  authenticated (so not in state Connected exactly) returns 0, and a login with the empty
  string as participant identifier returns 0.
\<close>

theorem login_accepts_reauth_and_empty_id_counterexample:
  "map ret
     (run_calls (atem_rtm_create (Some (scenario_config None)) None 0)
        [Connect, Login (Some ''tok'') (Some ''u1''), Login (Some ''tok'') (Some ''u1'')])
     = [0, 0, 0]
   \<and> map ret
     (run_calls (atem_rtm_create (Some (scenario_config None)) None 0)
        [Connect, Login (Some ''tok'') (Some [])])
     = [0, 0]"
  by (simp add: api_defs)

text \<open>
  Claim C5, amended. On a valid handle login returns -1 exactly when \<open>connected\<close> is
  false (state Disconnected) or the participant identifier is the null pointer, and then
  changes nothing; it returns 0 exactly when the client is connected (state Connected,
  Authenticated or ChannelJoined) and the identifier is not null, the empty string
  included, and then the client is connected and logged in with its channel membership as
  before.
\<close>

theorem login_rejected_iff_disconnected_or_null_id:
  "(ret (atem_rtm_login (Some c) tok uid) = - 1 \<longleftrightarrow> \<not> connected c \<or> uid = None)
   \<and> (ret (atem_rtm_login (Some c) tok uid) = 0 \<longleftrightarrow> connected c \<and> uid \<noteq> None)
   \<and> (\<not> connected c \<or> uid = None \<longrightarrow>
        atem_rtm_login (Some c) tok uid = \<lparr>ret = - 1, client_after = Some c, invoked = []\<rparr>)
   \<and> (connected c \<and> uid \<noteq> None \<longrightarrow>
        map_option flags (client_after (atem_rtm_login (Some c) tok uid))
          = Some (True, True, channel_joined c))"
  by (simp add: atem_rtm_login_def rejected_def flags_def split: option.splits)

theorem login_rejected_iff_disconnected_or_null_id_witness:
  "\<not> connected (fresh_example None)
   \<and> atem_rtm_login (Some (fresh_example None)) (Some ''tok'') (Some ''u1'')
       = \<lparr>ret = - 1, client_after = Some (fresh_example None), invoked = []\<rparr>
   \<and> connected (joined_example None)
   \<and> ret (atem_rtm_login (Some (joined_example None)) None (Some [])) = 0
   \<and> map_option flags (client_after (atem_rtm_login (Some (joined_example None)) None (Some [])))
       = Some (True, True, True)"
  using login_rejected_iff_disconnected_or_null_id
          [of "fresh_example None" "Some ''tok''" "Some ''u1''"]
        login_rejected_iff_disconnected_or_null_id
          [of "joined_example None" None "Some []"]
  by (simp add: fresh_example_def joined_example_def)

text \<open>
  Claim C6 holds of the vendor-backed login and fails on the simulator. With the
  configured token \<open>"cfgtok"\<close>, connect and then login with a null token both return 0
  on the simulator, and the token the client records is the empty string, not
  \<open>"cfgtok"\<close>. On the same configuration and arguments the vendor-backed login logs in
  with \<open>"cfgtok"\<close>.
\<close>

theorem login_null_token_simulator_and_vendor:
  "map ret
     (run_calls (atem_rtm_create (Some (scenario_config (Some ''cfgtok''))) None 0)
        [Connect, Login None (Some ''u1'')])
     = [0, 0]
   \<and> map (map_option token \<circ> client_after)
     (run_calls (atem_rtm_create (Some (scenario_config (Some ''cfgtok''))) None 0)
        [Connect, Login None (Some ''u1'')])
     = [Some [], Some []]
   \<and> atem_rtm_login_real
       (atem_rtm_create_real (Some 1, 0) (Some (scenario_config (Some ''cfgtok''))) None 0)
       None (Some ''u1'')
     = (0, [SdkLogin 1 ''cfgtok''])"
  by (simp add: api_defs scenario_config_def atem_rtm_create_real_def atem_rtm_login_real_def)

section \<open>Publishing to the channel\<close>

text \<open>
  Claim C7, as stated, fails: on the joined scenario client a publish of the empty string
  returns 0, not -1.
\<close>

theorem publish_accepts_empty_payload_counterexample:
  "map ret
     (run_calls (atem_rtm_create (Some (scenario_config None)) None 0)
        [Connect, Login (Some ''tok'') (Some ''u1''), JoinChannel (Some ''c1''),
         PublishChannel (Some [])])
     = [0, 0, 0, 0]"
  by (simp add: api_defs)

text \<open>
  Claim C7, amended. On a valid handle publish returns -1 exactly when the client is not
  joined (\<open>connected\<close> and \<open>channel_joined\<close> are not both true) or the payload is the
  null pointer, and returns 0 exactly when the client is joined and the payload is not
  null; an empty payload is accepted.
\<close>

theorem publish_rejected_iff_not_joined_or_null_payload:
  "(ret (atem_rtm_publish_channel (Some c) payload) = - 1
      \<longleftrightarrow> \<not> (connected c \<and> channel_joined c) \<or> payload = None)
   \<and> (ret (atem_rtm_publish_channel (Some c) payload) = 0
      \<longleftrightarrow> connected c \<and> channel_joined c \<and> payload \<noteq> None)"
  by (simp add: atem_rtm_publish_channel_def rejected_def split: option.splits)

theorem publish_rejected_iff_not_joined_or_null_payload_witness:
  "\<not> (connected (fresh_example None) \<and> channel_joined (fresh_example None))
   \<and> ret (atem_rtm_publish_channel (Some (fresh_example None)) (Some ''x'')) = - 1
   \<and> ret (atem_rtm_publish_channel (Some (joined_example None)) None) = - 1
   \<and> connected (joined_example None) \<and> channel_joined (joined_example None)
   \<and> ret (atem_rtm_publish_channel (Some (joined_example None)) (Some [])) = 0"
  using publish_rejected_iff_not_joined_or_null_payload [of "fresh_example None" "Some ''x''"]
        publish_rejected_iff_not_joined_or_null_payload [of "joined_example None" None]
        publish_rejected_iff_not_joined_or_null_payload [of "joined_example None" "Some []"]
  by (simp add: fresh_example_def joined_example_def)

section \<open>Sending to a peer\<close>

text \<open>
  Claim C8, as stated, fails: on a connected client a send with the empty string as
  target, and a send with the empty string as payload, both return 0.
\<close>

theorem send_peer_accepts_empty_strings_counterexample:
  "map ret
     (run_calls (atem_rtm_create (Some (scenario_config None)) None 0)
        [Connect, SendPeer (Some []) (Some ''ping''), SendPeer (Some ''peer42'') (Some [])])
     = [0, 0, 0]"
  by (simp add: api_defs)

text \<open>
  Claim C8, amended. On a valid handle send-to-peer returns -1 exactly when \<open>connected\<close>
  is false or the target or the payload is the null pointer, and returns 0 exactly when
  the client is connected and both are not null, empty strings included. The result does
  not depend on \<open>logged_in\<close> or \<open>channel_joined\<close>.
\<close>

theorem send_peer_rejected_iff_disconnected_or_null_argument:
  "(ret (atem_rtm_send_peer (Some c) target payload) = - 1
      \<longleftrightarrow> \<not> connected c \<or> target = None \<or> payload = None)
   \<and> (ret (atem_rtm_send_peer (Some c) target payload) = 0
      \<longleftrightarrow> connected c \<and> target \<noteq> None \<and> payload \<noteq> None)
   \<and> ret (atem_rtm_send_peer (Some (c\<lparr>logged_in := a, channel_joined := b\<rparr>)) target payload)
      = ret (atem_rtm_send_peer (Some c) target payload)"
  by (simp add: atem_rtm_send_peer_def rejected_def split: option.splits)

theorem send_peer_rejected_iff_disconnected_or_null_argument_witness:
  "\<not> connected (fresh_example None)
   \<and> ret (atem_rtm_send_peer (Some (fresh_example None)) (Some ''peer42'') (Some ''ping'')) = - 1
   \<and> connected (joined_example None)
   \<and> ret (atem_rtm_send_peer (Some (joined_example None)) None (Some ''ping'')) = - 1
   \<and> ret (atem_rtm_send_peer (Some (joined_example None)) (Some ''peer42'') None) = - 1
   \<and> ret (atem_rtm_send_peer (Some (joined_example None)) (Some ''peer42'') (Some ''ping'')) = 0
   \<and> ret (atem_rtm_send_peer
        (Some ((joined_example None)\<lparr>logged_in := False, channel_joined := False\<rparr>))
        (Some ''peer42'') (Some ''ping'')) = 0"
  using send_peer_rejected_iff_disconnected_or_null_argument
          [of "fresh_example None" "Some ''peer42''" "Some ''ping''"]
        send_peer_rejected_iff_disconnected_or_null_argument
          [of "joined_example None" None "Some ''ping''"]
        send_peer_rejected_iff_disconnected_or_null_argument
          [of "joined_example None" "Some ''peer42''" None]
        send_peer_rejected_iff_disconnected_or_null_argument
          [of "joined_example None" "Some ''peer42''" "Some ''ping''" False False]
  by (simp add: fresh_example_def joined_example_def)

section \<open>Loopback delivery\<close>

text \<open>
  Claim C9. In the simulator a send comes back to the registered callback \<open>f\<close> with the
  payload unchanged. On a joined client (connected, \<open>channel_joined\<close> true) a publish of
  \<open>p\<close> makes exactly one call of \<open>f\<close>, with payload \<open>p\<close>, the configured client
  identifier as sender (\<open>"self"\<close> when that is null) and the registered context; on a
  connected client a send of \<open>p\<close> to \<open>t\<close> makes exactly one call of \<open>f\<close>, with sender
  \<open>t\<close>, payload \<open>p\<close> and the context. With \<open>p = "hello"\<close>, and with \<open>t = "peer42"\<close>,
  \<open>p = "ping"\<close>, these are the two round trips of the specification.
\<close>

theorem simulator_sends_loop_back:
  assumes "connected c" and "callback c = Some f"
  shows "(channel_joined c \<longrightarrow>
            invoked (atem_rtm_publish_channel (Some c) (Some p))
              = [Invoke f (case cfg_client_id (config c) of None \<Rightarrow> ''self'' | Some s \<Rightarrow> s)
                   p (user_data c)])
         \<and> invoked (atem_rtm_send_peer (Some c) (Some t) (Some q))
              = [Invoke f t q (user_data c)]"
  using assms by (simp add: atem_rtm_publish_channel_def atem_rtm_send_peer_def)

theorem simulator_sends_loop_back_witness:
  "connected (joined_example (Some 7)) \<and> callback (joined_example (Some 7)) = Some 7
   \<and> channel_joined (joined_example (Some 7))
   \<and> invoked (atem_rtm_publish_channel (Some (joined_example (Some 7))) (Some ''hello''))
       = [Invoke 7 ''u1'' ''hello'' 9]
   \<and> invoked (atem_rtm_send_peer (Some (joined_example (Some 7))) (Some ''peer42'') (Some ''ping''))
       = [Invoke 7 ''peer42'' ''ping'' 9]"
proof -
  have conn: "connected (joined_example (Some 7))"
    by (simp add: joined_example_def)
  have cb: "callback (joined_example (Some 7)) = Some 7"
    by (simp add: joined_example_def)
  have joined: "channel_joined (joined_example (Some 7))"
    by (simp add: joined_example_def)
  have sender: "cfg_client_id (config (joined_example (Some 7))) = Some ''u1''"
    by (simp add: joined_example_def scenario_config_def)
  have ctx: "user_data (joined_example (Some 7)) = 9"
    by (simp add: joined_example_def)
  from simulator_sends_loop_back
         [OF conn cb, where p = "''hello''" and t = "''peer42''" and q = "''ping''"]
  show ?thesis
    using conn cb joined sender ctx by simp
qed

section \<open>A client without a callback\<close>

text \<open>
  Claim C10. Creation with a null callback succeeds and stores the null callback. On such
  a client no call of any sequence of operations invokes anything; publish on a joined
  client and send-to-peer on a connected client, with non-null arguments, still return 0,
  change nothing and invoke nothing. Both invocation sites are reached only through the
  branch in which the stored callback is not null.
\<close>

theorem null_callback_never_invoked:
  "(\<exists>c0. atem_rtm_create (Some cfg) None ud = Some c0 \<and> callback c0 = None)
   \<and> (\<forall>out \<in> set (run_calls (atem_rtm_create (Some cfg) None ud) calls). invoked out = [])
   \<and> (callback c = None \<and> connected c \<and> channel_joined c \<longrightarrow>
        atem_rtm_publish_channel (Some c) (Some p)
          = \<lparr>ret = 0, client_after = Some c, invoked = []\<rparr>)
   \<and> (callback c = None \<and> connected c \<longrightarrow>
        atem_rtm_send_peer (Some c) (Some t) (Some q)
          = \<lparr>ret = 0, client_after = Some c, invoked = []\<rparr>)"
proof -
  have created: "\<exists>c0. atem_rtm_create (Some cfg) None ud = Some c0 \<and> callback c0 = None"
    by (simp add: atem_rtm_create_def)
  then have silent:
    "\<forall>out \<in> set (run_calls (atem_rtm_create (Some cfg) None ud) calls). invoked out = []"
    using run_calls_null_callback_silent by auto
  have publish: "callback c = None \<and> connected c \<and> channel_joined c \<longrightarrow>
      atem_rtm_publish_channel (Some c) (Some p) = \<lparr>ret = 0, client_after = Some c, invoked = []\<rparr>"
    by (simp add: atem_rtm_publish_channel_def)
  have send: "callback c = None \<and> connected c \<longrightarrow>
      atem_rtm_send_peer (Some c) (Some t) (Some q) = \<lparr>ret = 0, client_after = Some c, invoked = []\<rparr>"
    by (simp add: atem_rtm_send_peer_def)
  from created silent publish send show ?thesis by blast
qed

theorem null_callback_never_invoked_witness:
  "map ret
     (run_calls (atem_rtm_create (Some (scenario_config None)) None 9)
        [Connect, Login (Some ''tok'') (Some ''u1''), JoinChannel (Some ''room1''),
         PublishChannel (Some ''hello''), SendPeer (Some ''peer42'') (Some ''ping'')])
     = [0, 0, 0, 0, 0]
   \<and> map invoked
     (run_calls (atem_rtm_create (Some (scenario_config None)) None 9)
        [Connect, Login (Some ''tok'') (Some ''u1''), JoinChannel (Some ''room1''),
         PublishChannel (Some ''hello''), SendPeer (Some ''peer42'') (Some ''ping'')])
     = [[], [], [], [], []]
   \<and> callback (joined_example None) = None \<and> connected (joined_example None)
   \<and> channel_joined (joined_example None)
   \<and> atem_rtm_publish_channel (Some (joined_example None)) (Some ''hello'')
       = \<lparr>ret = 0, client_after = Some (joined_example None), invoked = []\<rparr>
   \<and> atem_rtm_send_peer (Some (joined_example None)) (Some ''peer42'') (Some ''ping'')
       = \<lparr>ret = 0, client_after = Some (joined_example None), invoked = []\<rparr>"
  using null_callback_never_invoked
    [where cfg = "scenario_config None" and ud = 9
       and calls = "[Connect, Login (Some ''tok'') (Some ''u1''), JoinChannel (Some ''room1''),
          PublishChannel (Some ''hello''), SendPeer (Some ''peer42'') (Some ''ping'')]"
       and c = "joined_example None" and p = "''hello''" and t = "''peer42''"
       and q = "''ping''"]
  by (simp add: api_defs joined_example_def)

end
